theory Spec2Isabelle
  imports Complex_Main "HOL-Library.Sublist"
begin

section \<open>Python values\<close>

text \<open>
  The values the program handles are parsed JSON documents and strings. A finite Python
  \<open>float\<close> is represented by its exact rational value; the non-finite floats are outside
  the model. A \<open>dict\<close> is the list of its items in insertion order, with distinct keys;
  lookups take the entry of the key.
\<close>

datatype json =
    JNull
  | JBool bool
  | JInt int
  | JFloat rat
  | JString string
  | JArray "json list"
  | JObject "(string \<times> json) list"

text \<open>Truth value testing: \<open>None\<close>, \<open>False\<close>, zero and empty containers are false.\<close>

fun truthy :: "json \<Rightarrow> bool" where
  "truthy JNull = False"
| "truthy (JBool b) = b"
| "truthy (JInt n) = (n \<noteq> 0)"
| "truthy (JFloat r) = (r \<noteq> 0)"
| "truthy (JString s) = (s \<noteq> [])"
| "truthy (JArray xs) = (xs \<noteq> [])"
| "truthy (JObject kvs) = (kvs \<noteq> [])"

text \<open>\<open>a or b\<close> evaluates to \<open>a\<close> when \<open>a\<close> is true and to \<open>b\<close> otherwise.\<close>

definition py_or :: "json \<Rightarrow> json \<Rightarrow> json" where
  "py_or a b = (if truthy a then a else b)"

fun type_name :: "json \<Rightarrow> string" where
  "type_name JNull = ''NoneType''"
| "type_name (JBool b) = ''bool''"
| "type_name (JInt n) = ''int''"
| "type_name (JFloat r) = ''float''"
| "type_name (JString s) = ''str''"
| "type_name (JArray xs) = ''list''"
| "type_name (JObject kvs) = ''dict''"

text \<open>\<open>d.get(k, default)\<close> and \<open>d.get(k)\<close>, whose default is \<open>None\<close>.\<close>

definition dict_get :: "(string \<times> json) list \<Rightarrow> string \<Rightarrow> json \<Rightarrow> json" where
  "dict_get d k dflt = (case map_of d k of Some v \<Rightarrow> v | None \<Rightarrow> dflt)"

definition get :: "(string \<times> json) list \<Rightarrow> string \<Rightarrow> json" where
  "get d k = dict_get d k JNull"

text \<open>
  Equality of Python values: numbers (booleans included) compare by value, lists
  elementwise, dicts as sets of items.
\<close>

fun num_val :: "json \<Rightarrow> rat option" where
  "num_val (JBool b) = Some (if b then 1 else 0)"
| "num_val (JInt n) = Some (of_int n)"
| "num_val (JFloat r) = Some r"
| "num_val v = None"

fun py_eq :: "json \<Rightarrow> json \<Rightarrow> bool" where
  "py_eq JNull b = (b = JNull)"
| "py_eq (JString s) b = (b = JString s)"
| "py_eq (JArray xs) b = (case b of JArray ys \<Rightarrow> list_all2 py_eq xs ys | _ \<Rightarrow> False)"
| "py_eq (JObject d) b =
     (case b of
        JObject d' \<Rightarrow>
          length d = length d' \<and>
          list_all (\<lambda>(k, v). case map_of d' k of None \<Rightarrow> False | Some w \<Rightarrow> py_eq v w) d
      | _ \<Rightarrow> False)"
| "py_eq a b =
     (case (num_val a, num_val b) of (Some x, Some y) \<Rightarrow> x = y | _ \<Rightarrow> False)"

text \<open>
  Keys of the two dicts built by the transcript handler. Lists and dicts are unhashable;
  equal numbers are the same key.
\<close>

datatype key = KNone | KNum rat | KStr string

fun hash_key :: "json \<Rightarrow> key option" where
  "hash_key JNull = Some KNone"
| "hash_key (JString s) = Some (KStr s)"
| "hash_key (JArray xs) = None"
| "hash_key (JObject d) = None"
| "hash_key v = map_option KNum (num_val v)"

text \<open>\<open>d[k] = v\<close> on a dict in insertion order: an existing key keeps its position.\<close>

definition dict_set :: "('k \<times> 'v) list \<Rightarrow> 'k \<Rightarrow> 'v \<Rightarrow> ('k \<times> 'v) list" where
  "dict_set d k v =
     (if k \<in> fst ` set d then map (\<lambda>(k', v'). if k' = k then (k', v) else (k', v')) d
      else d @ [(k, v)])"

section \<open>Strings\<close>

text \<open>
  A Python \<open>str\<close> is a sequence of code points; \<open>len\<close> counts code points. The model
  uses HOL strings (lists of 8-bit characters). The program text contains two code points
  beyond that range, U+2014 (em dash) and U+2192 (rightwards arrow); each is represented
  by one reserved character, so that lengths are those of the Python strings.
\<close>

definition em_dash :: char where
  "em_dash = CHR 0x97"

definition right_arrow :: char where
  "right_arrow = CHR 0x92"

definition newline :: char where
  "newline = CHR 0x0A"

text \<open>Decimal rendering of integers, as \<open>str\<close> and f-strings produce it.\<close>

definition digit_char :: "nat \<Rightarrow> char" where
  "digit_char n = ''0123456789'' ! n"

fun show_nat :: "nat \<Rightarrow> string" where
  "show_nat n =
     (if n < 10 then [digit_char n]
      else show_nat (n div 10) @ [digit_char (n mod 10)])"

declare show_nat.simps [simp del]

definition show_int :: "int \<Rightarrow> string" where
  "show_int i = (if i < 0 then ''-'' @ show_nat (nat (- i)) else show_nat (nat i))"

text \<open>The format \<open>02d\<close>: at least two characters, padded with zeros after the sign.\<close>

definition fmt_02d :: "int \<Rightarrow> string" where
  "fmt_02d i = (if 0 \<le> i \<and> i < 10 then ''0'' @ show_int i else show_int i)"

text \<open>\<open>str.isspace\<close> on the characters of the model.\<close>

definition py_isspace :: "char \<Rightarrow> bool" where
  "py_isspace c =
     (let n = (of_char c :: nat) in (9 \<le> n \<and> n \<le> 13) \<or> (28 \<le> n \<and> n \<le> 32) \<or> n = 133 \<or> n = 160)"

definition strip :: "string \<Rightarrow> string" where
  "strip s = rev (dropWhile py_isspace (rev (dropWhile py_isspace s)))"

text \<open>\<open>s.lstrip(chars)\<close> removes the leading characters that occur in \<open>chars\<close>.\<close>

definition lstrip_chars :: "string \<Rightarrow> string \<Rightarrow> string" where
  "lstrip_chars chars s = dropWhile (\<lambda>c. c \<in> set chars) s"

text \<open>\<open>sep.join(xs)\<close>.\<close>

fun join :: "string \<Rightarrow> string list \<Rightarrow> string" where
  "join sep [] = []"
| "join sep [x] = x"
| "join sep (x # y # ys) = x @ sep @ join sep (y # ys)"

text \<open>\<open>s.split("\n")\<close>: the pieces between newlines, at least one piece.\<close>

fun split_lines :: "string \<Rightarrow> string list" where
  "split_lines [] = [[]]"
| "split_lines (c # cs) =
     (if c = newline then [] # split_lines cs
      else (case split_lines cs of [] \<Rightarrow> [[c]] | w # ws \<Rightarrow> (c # w) # ws))"

text \<open>\<open>needle in haystack\<close> on strings.\<close>

fun contains :: "string \<Rightarrow> string \<Rightarrow> bool" where
  "contains [] needle = (needle = [])"
| "contains (c # cs) needle = (prefix needle (c # cs) \<or> contains cs needle)"

section \<open>Exceptions and built-in conversions\<close>

text \<open>
  An exception is a value. \<open>OtherException name message\<close> stands for any exception that
  \<open>_handle_error\<close> does not single out, with \<open>type(e).__name__\<close> and \<open>str(e)\<close>. The
  message texts of the exceptions raised by the interpreter itself follow CPython 3.11.
\<close>

datatype exn =
    RuntimeError string
  | HTTPStatusError int
  | TimeoutException
  | OtherException string string

definition attribute_error :: "json \<Rightarrow> string \<Rightarrow> exn" where
  "attribute_error v attr =
     OtherException ''AttributeError''
       ([CHR 0x27] @ type_name v @ [CHR 0x27] @ '' object has no attribute '' @ [CHR 0x27] @ attr @ [CHR 0x27])"

definition type_error :: "string \<Rightarrow> exn" where
  "type_error msg = OtherException ''TypeError'' msg"

definition unhashable :: "json \<Rightarrow> exn" where
  "unhashable v = type_error (''unhashable type: '' @ [CHR 0x27] @ type_name v @ [CHR 0x27])"

text \<open>Sequencing of computations that may raise.\<close>

definition bind :: "exn + 'a \<Rightarrow> ('a \<Rightarrow> exn + 'b) \<Rightarrow> exn + 'b" where
  "bind m f = (case m of Inl e \<Rightarrow> Inl e | Inr x \<Rightarrow> f x)"

text \<open>
  Two built-ins are parameters of the model: \<open>repr\<close> of floats, lists and dicts, and the
  parsing of a string by \<open>float\<close> (\<open>None\<close> when it raises \<open>ValueError\<close>; strings
  that denote a non-finite float are outside the model, like these floats themselves).
\<close>

record builtins =
  repr :: "json \<Rightarrow> string"
  float_of_str :: "string \<Rightarrow> rat option"

text \<open>\<open>str(v)\<close>, which is also what an f-string field without format produces.\<close>

fun py_str :: "builtins \<Rightarrow> json \<Rightarrow> string" where
  "py_str bi (JString s) = s"
| "py_str bi JNull = ''None''"
| "py_str bi (JBool b) = (if b then ''True'' else ''False'')"
| "py_str bi (JInt n) = show_int n"
| "py_str bi v = repr bi v"

text \<open>\<open>len(v)\<close>.\<close>

fun py_len :: "json \<Rightarrow> exn + nat" where
  "py_len (JString s) = Inr (length s)"
| "py_len (JArray xs) = Inr (length xs)"
| "py_len (JObject d) = Inr (length d)"
| "py_len v =
     Inl (type_error (''object of type '' @ [CHR 0x27] @ type_name v @ [CHR 0x27] @ '' has no len()''))"

text \<open>The items a \<open>for\<close> loop visits in a value that has a length.\<close>

fun py_iter :: "json \<Rightarrow> json list" where
  "py_iter (JArray xs) = xs"
| "py_iter (JString s) = map (\<lambda>c. JString [c]) s"
| "py_iter (JObject d) = map (\<lambda>(k, v). JString k) d"
| "py_iter v = []"

text \<open>
  \<open>float(n)\<close> for an integer: the nearest double, ties to even, and \<open>OverflowError\<close>
  beyond the range of doubles.
\<close>

function bit_length :: "int \<Rightarrow> nat" where
  "bit_length n = (if n \<le> 0 then 0 else Suc (bit_length (n div 2)))"
  by pat_completeness auto

termination bit_length
  by (relation "measure nat") auto

declare bit_length.simps [simp del]

definition float_of_int :: "int \<Rightarrow> exn + rat" where
  "float_of_int n =
     (let a = \<bar>n\<bar> in
      if a < 2 ^ 53 then Inr (of_int n)
      else
        let sh = bit_length a - 53;
            q = a div 2 ^ sh;
            r = a mod 2 ^ sh;
            q' = (if 2 ^ (sh - 1) < r \<or> (r = 2 ^ (sh - 1) \<and> odd q) then q + 1 else q);
            v = q' * 2 ^ sh
        in if 2 ^ 1024 \<le> v then Inl (OtherException ''OverflowError'' ''int too large to convert to float'')
           else Inr (of_int (sgn n * v)))"

fun py_float :: "builtins \<Rightarrow> json \<Rightarrow> exn + rat" where
  "py_float bi (JBool b) = Inr (if b then 1 else 0)"
| "py_float bi (JInt n) = float_of_int n"
| "py_float bi (JFloat r) = Inr r"
| "py_float bi (JString s) =
     (case float_of_str bi s of
        Some r \<Rightarrow> Inr r
      | None \<Rightarrow> Inl (OtherException ''ValueError''
                   (''could not convert string to float: '' @ repr bi (JString s))))"
| "py_float bi v =
     Inl (type_error (''float() argument must be a string or a real number, not ''
                      @ [CHR 0x27] @ type_name v @ [CHR 0x27]))"

text \<open>\<open>int(x)\<close> for a float: truncation towards zero.\<close>

definition int_of_float :: "rat \<Rightarrow> int" where
  "int_of_float r = (if 0 \<le> r then \<lfloor>r\<rfloor> else \<lceil>r\<rceil>)"

section \<open>Shared helpers\<close>

definition API_BASE_URL :: string where
  "API_BASE_URL = ''https://app.jiminny.com/api/v1''"

definition CHARACTER_LIMIT :: nat where
  "CHARACTER_LIMIT = 25000"

text \<open>
  The surroundings of one tool call: the environment variable \<open>JIMINNY_TOKEN\<close> (\<open>None\<close>
  when unset) and the upstream API. A request either raises (\<open>Inl\<close>: timeout, connection
  failure) or yields a response with a status code and a body whose \<open>json()\<close> either
  raises (malformed JSON) or yields a value. No tool call requests the same URL twice, so
  a function of the request covers every behaviour of the upstream during one call.
\<close>

record response =
  status_code :: int
  json_body :: "exn + json"

record env =
  token_var :: "string option"
  http_get :: "string \<Rightarrow> (string \<times> string) list \<Rightarrow> (string \<times> json) list \<Rightarrow> exn + response"

text \<open>The variables of the loop over the transcript segments.\<close>

record tstate =
  speaker_counter :: nat
  auto_names :: "(key \<times> string) list"
  lines :: "string list"
  prev_speaker :: "json option"

definition token_message :: string where
  "token_message =
     ''JIMINNY_TOKEN environment variable is not set. '' @
     ''Get your token from Jiminny browser DevTools: '' @
     ''Network tab > any API request > Authorization header (copy the value after ''
       @ [CHR 0x27] @ ''Bearer '' @ [CHR 0x27] @ '').''"

definition get_token :: "env \<Rightarrow> exn + string" where
  "get_token ev =
     (let token = (case token_var ev of Some t \<Rightarrow> t | None \<Rightarrow> '''') in
      if token = [] then Inl (RuntimeError token_message) else Inr token)"

definition auth_headers :: "env \<Rightarrow> exn + (string \<times> string) list" where
  "auth_headers ev =
     bind (get_token ev) (\<lambda>token.
       Inr [(''Authorization'', ''Bearer '' @ token),
            (''Accept'', ''application/json''),
            (''Content-Type'', ''application/json'')])"

text \<open>\<open>response.raise_for_status()\<close> raises for every status outside 2xx.\<close>

definition raise_for_status :: "response \<Rightarrow> exn + unit" where
  "raise_for_status resp =
     (if 200 \<le> status_code resp \<and> status_code resp \<le> 299 then Inr ()
      else Inl (HTTPStatusError (status_code resp)))"

definition api_get :: "env \<Rightarrow> string \<Rightarrow> (string \<times> json) list \<Rightarrow> exn + json" where
  "api_get ev path params =
     bind (auth_headers ev) (\<lambda>headers.
     bind (http_get ev (API_BASE_URL @ ''/'' @ path) headers params) (\<lambda>resp.
     bind (raise_for_status resp) (\<lambda>_. json_body resp)))"

definition format_seconds :: "rat \<Rightarrow> string" where
  "format_seconds seconds =
     (let n = int_of_float seconds; mins = n div 60; secs = n mod 60
      in show_int mins @ '':'' @ fmt_02d secs)"

text \<open>
  \<open>_get_participant_names\<close>. The loop stops at the first participant whose id is
  unhashable (the \<open>TypeError\<close> is swallowed) and the mapping built so far is returned.
\<close>

fun add_participants :: "(key \<times> json) list \<Rightarrow> json list \<Rightarrow> (key \<times> json) list" where
  "add_participants mapping [] = mapping"
| "add_participants mapping (JObject p # ps) =
     (let pid = py_or (get p ''id'') (py_or (get p ''participantId'') (JString ''''));
          name = py_or (get p ''name'')
                   (py_or (get p ''displayName'') (py_or (get p ''email'') (JString '''')))
      in if truthy pid \<and> truthy name then
           (case hash_key pid of
              None \<Rightarrow> mapping
            | Some k \<Rightarrow> add_participants (dict_set mapping k name) ps)
         else add_participants mapping ps)"
| "add_participants mapping (p # ps) = add_participants mapping ps"

definition participants_of :: "json \<Rightarrow> exn + json" where
  "participants_of data =
     (case data of
        JArray xs \<Rightarrow> Inr data
      | JObject d \<Rightarrow>
          Inr (dict_get d ''participants''
                (dict_get d ''data'' (dict_get d ''results'' (JArray []))))
      | _ \<Rightarrow> Inl (attribute_error data ''get''))"

definition get_participant_names :: "env \<Rightarrow> string \<Rightarrow> (key \<times> json) list" where
  "get_participant_names ev conversation_id =
     (case bind (api_get ev (''activity/'' @ conversation_id @ ''/participants'') []) participants_of of
        Inr (JArray participants) \<Rightarrow> add_participants [] participants
      | _ \<Rightarrow> [])"

definition generic_status_message :: "int \<Rightarrow> string" where
  "generic_status_message status = ''Error: Jiminny API returned status '' @ show_int status @ ''.''"

definition handle_error :: "exn \<Rightarrow> string" where
  "handle_error e =
     (case e of
        RuntimeError msg \<Rightarrow>
          if contains msg ''JIMINNY_TOKEN'' then msg else ''Error: RuntimeError: '' @ msg
      | HTTPStatusError status \<Rightarrow>
          if status = 401 then
            ''Error: Authentication failed (401). Your token may have expired. '' @
            ''Go to Jiminny in your browser, open DevTools > Network tab, '' @
            ''refresh the page, and copy the new Bearer token.''
          else if status = 403 then
            ''Error: Permission denied (403). You don'' @ [CHR 0x27] @ ''t have access to this resource.''
          else if status = 404 then
            ''Error: Not found (404). Check that the conversation ID is correct.''
          else if status = 429 then
            ''Error: Rate limit exceeded (429). Wait a moment and try again.''
          else generic_status_message status
      | TimeoutException \<Rightarrow> ''Error: Request timed out. Try again.''
      | OtherException name msg \<Rightarrow> ''Error: '' @ name @ '': '' @ msg)"

text \<open>The fixed notice appended by \<open>_truncate\<close>.\<close>

definition truncation_marker :: string where
  "truncation_marker =
     ''... [truncated '' @ [em_dash] @ '' response exceeded character limit]''"

definition truncation_suffix :: string where
  "truncation_suffix = [newline, newline] @ truncation_marker"

text \<open>\<open>_truncate\<close>: \<open>text[:CHARACTER_LIMIT] + suffix\<close> when the text is longer than the limit.\<close>

definition truncate :: "string \<Rightarrow> string" where
  "truncate text =
     (if length text \<le> CHARACTER_LIMIT then text
      else take CHARACTER_LIMIT text @ truncation_suffix)"

section \<open>Conversation list formatter\<close>

text \<open>
  \<open>r.get(k, {}).get("name", "") if isinstance(r.get(k), dict) else ""\<close>, used for the
  organizer, the prospect and the category of a conversation record.
\<close>

definition sub_name :: "(string \<times> json) list \<Rightarrow> string \<Rightarrow> json" where
  "sub_name r k = (case get r k of JObject d \<Rightarrow> dict_get d ''name'' (JString '''') | _ \<Rightarrow> JString '''')"

text \<open>
  \<open>r.get("actualStartTime", "")[:10] if r.get("actualStartTime") else ""\<close>: strings and
  lists can be sliced, the other true values raise.
\<close>

definition start_date :: "(string \<times> json) list \<Rightarrow> exn + json" where
  "start_date r =
     (let v = get r ''actualStartTime'' in
      if truthy v then
        (case v of
           JString s \<Rightarrow> Inr (JString (take 10 s))
         | JArray xs \<Rightarrow> Inr (JArray (take 10 xs))
         | JObject d \<Rightarrow> Inl (type_error (''unhashable type: '' @ [CHR 0x27] @ ''slice'' @ [CHR 0x27]))
         | _ \<Rightarrow> Inl (type_error ([CHR 0x27] @ type_name v @ [CHR 0x27] @ '' object is not subscriptable'')))
      else Inr (JString ''''))"

definition yes_no :: "json \<Rightarrow> string" where
  "yes_no v = (if truthy v then ''Yes'' else ''No'')"

text \<open>The lines one pass of the loop over \<open>results\<close> appends.\<close>

definition format_record :: "builtins \<Rightarrow> json \<Rightarrow> exn + string list" where
  "format_record bi rec =
     (case rec of
        JObject r \<Rightarrow>
          (let title = dict_get r ''title'' (JString ''Untitled'');
               conv_id = dict_get r ''id'' (JString '''');
               duration = dict_get r ''durationForHumans'' (JString '''')
           in bind (start_date r) (\<lambda>start.
              let organizer = sub_name r ''organizer'';
                  prospect_name = sub_name r ''prospect'';
                  category = sub_name r ''category'';
                  provider = dict_get r ''provider'' (JString '''');
                  is_summarized = dict_get r ''isSummarized'' (JBool False);
                  has_transcript = dict_get r ''hasTranscription'' (JBool False);
                  status = dict_get r ''status'' (JString '''')
              in Inr ([''## '' @ py_str bi title,
                       ''- **ID**: `'' @ py_str bi conv_id @ ''`'']
                      @ (if truthy start then [''- **Date**: '' @ py_str bi start] else [])
                      @ (if truthy duration then [''- **Duration**: '' @ py_str bi duration] else [])
                      @ (if truthy organizer then [''- **Host**: '' @ py_str bi organizer] else [])
                      @ (if truthy prospect_name then [''- **Contact**: '' @ py_str bi prospect_name] else [])
                      @ (if truthy category then [''- **Category**: '' @ py_str bi category] else [])
                      @ (if truthy provider then [''- **Provider**: '' @ py_str bi provider] else [])
                      @ [''- **Transcript**: '' @ yes_no has_transcript
                           @ '' | **Summary**: '' @ yes_no is_summarized]
                      @ (if truthy status then [''- **Status**: '' @ py_str bi status] else [])
                      @ [''''])))
      | _ \<Rightarrow> Inl (attribute_error rec ''get''))"

fun format_records :: "builtins \<Rightarrow> string list \<Rightarrow> json list \<Rightarrow> exn + string list" where
  "format_records bi ls [] = Inr ls"
| "format_records bi ls (r # rs) =
     bind (format_record bi r) (\<lambda>new. format_records bi (ls @ new) rs)"

definition list_header :: "builtins \<Rightarrow> json \<Rightarrow> json \<Rightarrow> string" where
  "list_header bi current_page total_n =
     ''# Jiminny Conversations (page '' @ py_str bi current_page @ '', ''
       @ py_str bi total_n @ '' total)''"

definition format_conversation_list :: "builtins \<Rightarrow> json \<Rightarrow> exn + string" where
  "format_conversation_list bi data =
     (case data of
        JObject d \<Rightarrow>
          (let results = dict_get d ''results'' (JArray []);
               pagination = dict_get d ''pagination'' (JObject [])
           in case pagination of
                JObject pg \<Rightarrow>
                  bind (py_len results) (\<lambda>n.
                    let total_n = dict_get pg ''total'' (JInt (int n));
                        current_page = dict_get pg ''current'' (JInt 1);
                        next_page = dict_get pg ''next'' JNull;
                        ls = [list_header bi current_page total_n, '''']
                    in if \<not> truthy results then
                         Inr (join [newline] (ls @ [''No conversations found.'']))
                       else
                         bind (format_records bi ls (py_iter results)) (\<lambda>ls.
                           Inr (truncate (join [newline]
                             (ls @
                              (if truthy next_page then
                                 [''_More results available '' @ [em_dash] @ '' request page ''
                                    @ py_str bi next_page @ ''._'']
                               else []))))))
              | _ \<Rightarrow> Inl (attribute_error pagination ''get''))
      | _ \<Rightarrow> Inl (attribute_error data ''get''))"

section \<open>Tools\<close>

text \<open>
  A tool handler returns \<open>Inr\<close> of the string it returns, or \<open>Inl\<close> of the exception it
  lets escape to the host.
\<close>

definition jiminny_list_conversations :: "builtins \<Rightarrow> env \<Rightarrow> int \<Rightarrow> exn + string" where
  "jiminny_list_conversations bi ev page =
     (case bind (api_get ev ''page/on-demand'' [(''page'', JInt page)])
                (format_conversation_list bi) of
        Inr text \<Rightarrow> Inr text
      | Inl e \<Rightarrow> Inr (handle_error e))"

section \<open>Transcript handler\<close>

text \<open>The segment container: the payload itself when it is a list, else the first true
  value among four keys of a dict payload, else the empty list.\<close>

definition select_segments :: "json \<Rightarrow> json" where
  "select_segments data =
     (case data of
        JArray xs \<Rightarrow> data
      | JObject d \<Rightarrow>
          py_or (get d ''segments'')
            (py_or (get d ''entries'')
              (py_or (get d ''data'')
                (py_or (get d ''results'') (JArray []))))
      | _ \<Rightarrow> JArray [])"

text \<open>The loop over the direct text keys: the first key present with a string value.\<close>

fun direct_text :: "(string \<times> json) list \<Rightarrow> string list \<Rightarrow> string option" where
  "direct_text d [] = None"
| "direct_text d (k # ks) =
     (case map_of d k of Some (JString s) \<Rightarrow> Some s | _ \<Rightarrow> direct_text d ks)"

definition seg_text :: "(string \<times> json) list \<Rightarrow> json" where
  "seg_text seg =
     py_or (get seg ''transcript'') (py_or (get seg ''text'') (py_or (get seg ''content'') (JString '''')))"

definition seg_pid :: "(string \<times> json) list \<Rightarrow> json" where
  "seg_pid seg =
     py_or (get seg ''participantId'') (py_or (get seg ''speaker'') (JString ''unknown''))"

definition seg_start :: "(string \<times> json) list \<Rightarrow> json" where
  "seg_start seg =
     py_or (get seg ''startsAt'') (py_or (get seg ''startTime'') (py_or (get seg ''start'') (JInt 0)))"

definition speaker_label :: "nat \<Rightarrow> string" where
  "speaker_label n = ''Speaker '' @ show_nat n"

text \<open>The resolution of a participant id: a resolved name, else the label already given
  to the id, else the next label. Testing an unhashable id for membership raises.\<close>

definition resolve_speaker ::
  "(key \<times> json) list \<Rightarrow> tstate \<Rightarrow> json \<Rightarrow> exn + (json \<times> tstate)" where
  "resolve_speaker names st pid =
     (case hash_key pid of
        None \<Rightarrow> Inl (unhashable pid)
      | Some k \<Rightarrow>
          (case map_of names k of
             Some name \<Rightarrow> Inr (name, st)
           | None \<Rightarrow>
               (case map_of (auto_names st) k of
                  Some label \<Rightarrow> Inr (JString label, st)
                | None \<Rightarrow>
                    (let n = speaker_counter st + 1; label = speaker_label n
                     in Inr (JString label,
                             st\<lparr>speaker_counter := n,
                                auto_names := dict_set (auto_names st) k label\<rparr>)))))"

text \<open>\<open>_format_seconds(float(start)) if start else ""\<close>.\<close>

definition seg_timestamp :: "builtins \<Rightarrow> json \<Rightarrow> exn + string" where
  "seg_timestamp bi start =
     (if truthy start then bind (py_float bi start) (\<lambda>seconds. Inr (format_seconds seconds))
      else Inr '''')"

definition header_line :: "builtins \<Rightarrow> json \<Rightarrow> string \<Rightarrow> string \<Rightarrow> string" where
  "header_line bi speaker timestamp text =
     [newline] @ ''**'' @ py_str bi speaker @ ''** ['' @ timestamp @ '']:'' @ [newline] @ text"

text \<open>\<open>speaker != prev_speaker\<close>, where \<open>prev_speaker\<close> starts as \<open>None\<close>.\<close>

definition speaker_changed :: "json \<Rightarrow> json option \<Rightarrow> bool" where
  "speaker_changed speaker prev = (case prev of None \<Rightarrow> True | Some p \<Rightarrow> \<not> py_eq speaker p)"

definition emit :: "builtins \<Rightarrow> tstate \<Rightarrow> json \<Rightarrow> string \<Rightarrow> string \<Rightarrow> tstate" where
  "emit bi st speaker timestamp text =
     (if speaker_changed speaker (prev_speaker st) then
        st\<lparr>lines := lines st @ [header_line bi speaker timestamp text],
           prev_speaker := Some speaker\<rparr>
      else st\<lparr>lines := lines st @ [text]\<rparr>)"

text \<open>One pass of the loop. A segment that is not a dict and a segment whose text is
  blank are skipped; a true text that is not a string has no \<open>strip\<close>.\<close>

definition segment_step ::
  "builtins \<Rightarrow> (key \<times> json) list \<Rightarrow> tstate \<Rightarrow> json \<Rightarrow> exn + tstate" where
  "segment_step bi names st seg =
     (case seg of
        JObject d \<Rightarrow>
          (case seg_text d of
             JString text \<Rightarrow>
               if strip text = [] then Inr st
               else
                 (let pid = seg_pid d; start = seg_start d
                  in bind (resolve_speaker names st pid) (\<lambda>(speaker, st1).
                     bind (seg_timestamp bi start) (\<lambda>timestamp.
                       Inr (emit bi st1 speaker timestamp text))))
           | v \<Rightarrow> Inl (attribute_error v ''strip''))
      | _ \<Rightarrow> Inr st)"

fun transcript_loop ::
  "builtins \<Rightarrow> (key \<times> json) list \<Rightarrow> tstate \<Rightarrow> json list \<Rightarrow> exn + tstate" where
  "transcript_loop bi names st [] = Inr st"
| "transcript_loop bi names st (seg # segs) =
     bind (segment_step bi names st seg) (\<lambda>st'. transcript_loop bi names st' segs)"

definition initial_tstate :: tstate where
  "initial_tstate =
     \<lparr>speaker_counter = 0, auto_names = [], lines = [''# Transcript'', ''''], prev_speaker = None\<rparr>"

text \<open>\<open>", ".join(values)\<close> raises at the first value that is not a string.\<close>

fun str_items :: "nat \<Rightarrow> json list \<Rightarrow> exn + string list" where
  "str_items i [] = Inr []"
| "str_items i (JString s # vs) = bind (str_items (Suc i) vs) (\<lambda>ss. Inr (s # ss))"
| "str_items i (v # vs) =
     Inl (type_error (''sequence item '' @ show_nat i @ '': expected str instance, ''
                      @ type_name v @ '' found''))"

text \<open>\<open>lines.insert(2, x)\<close>.\<close>

definition insert_at :: "nat \<Rightarrow> 'a \<Rightarrow> 'a list \<Rightarrow> 'a list" where
  "insert_at i x xs = take i xs @ [x] @ drop i xs"

definition participants_line :: "(key \<times> json) list \<Rightarrow> tstate \<Rightarrow> exn + string list" where
  "participants_line names st =
     (if names \<noteq> [] then
        bind (str_items 0 (map snd names)) (\<lambda>vals.
          Inr (insert_at 2 (''_Participants: '' @ join '', '' vals @ ''_'' @ [newline]) (lines st)))
      else if auto_names st \<noteq> [] then
        Inr (insert_at 2
               (''_Note: '' @ show_nat (length (auto_names st))
                @ '' speakers detected (names could not be resolved)_'' @ [newline])
               (lines st))
      else Inr (lines st))"

definition transcript_title :: string where
  "transcript_title = ''# Transcript'' @ [newline, newline]"

definition render_segments ::
  "builtins \<Rightarrow> (key \<times> json) list \<Rightarrow> json list \<Rightarrow> exn + string" where
  "render_segments bi names segments =
     bind (transcript_loop bi names initial_tstate segments) (\<lambda>st.
     bind (participants_line names st) (\<lambda>ls.
       Inr (truncate (join [newline] ls))))"

definition transcript_body :: "builtins \<Rightarrow> env \<Rightarrow> string \<Rightarrow> exn + string" where
  "transcript_body bi ev cid =
     bind (api_get ev (''activity/'' @ cid @ ''/transcription'') []) (\<lambda>data.
       let segments = select_segments data;
           direct = (case data of
                       JObject d \<Rightarrow>
                         if \<not> truthy segments
                         then direct_text d [''transcript'', ''text'', ''content'', ''transcription'']
                         else None
                     | _ \<Rightarrow> None)
       in case direct of
            Some s \<Rightarrow> Inr (truncate (transcript_title @ s))
          | None \<Rightarrow>
              (case segments of
                 JArray segs \<Rightarrow>
                   if segs = [] then Inr (truncate (transcript_title @ py_str bi data))
                   else render_segments bi (get_participant_names ev cid) segs
               | _ \<Rightarrow> Inr (truncate (transcript_title @ py_str bi data))))"

definition jiminny_get_transcript :: "builtins \<Rightarrow> env \<Rightarrow> string \<Rightarrow> exn + string" where
  "jiminny_get_transcript bi ev cid =
     (case transcript_body bi ev cid of
        Inr text \<Rightarrow> Inr text
      | Inl e \<Rightarrow> Inr (handle_error e))"

section \<open>Text extraction helpers\<close>

text \<open>The first of the keys that is present in the dict with a value satisfying \<open>ok\<close>.\<close>

fun first_of :: "(json \<Rightarrow> bool) \<Rightarrow> (string \<times> json) list \<Rightarrow> string list \<Rightarrow> json option" where
  "first_of ok d [] = None"
| "first_of ok d (k # ks) =
     (case map_of d k of
        Some v \<Rightarrow> if ok v then Some v else first_of ok d ks
      | None \<Rightarrow> first_of ok d ks)"

fun is_dict :: "json \<Rightarrow> bool" where
  "is_dict (JObject d) = True"
| "is_dict v = False"

fun is_list :: "json \<Rightarrow> bool" where
  "is_list (JArray xs) = True"
| "is_list v = False"

text \<open>A string that is not blank.\<close>

fun is_text :: "json \<Rightarrow> bool" where
  "is_text (JString s) = (strip s \<noteq> [])"
| "is_text v = False"

lemma size_map_of:
  "map_of d k = Some v \<Longrightarrow> size v < Suc (size_list (size_prod (\<lambda>x. 0) size) d)"
  by (induction d) (auto split: if_splits)

lemma size_first_of:
  "first_of ok d ks = Some v \<Longrightarrow> size v < Suc (size_list (size_prod (\<lambda>x. 0) size) d)"
  by (induction ks) (auto split: option.splits if_splits dest: size_map_of)

function extract_text :: "string \<Rightarrow> json \<Rightarrow> string" where
  "extract_text fallback_key (JString s) = s"
| "extract_text fallback_key (JObject d) =
     (case first_of is_text d
             [''text'', ''summary'', ''content'', ''description'', ''transcription'', fallback_key] of
        Some v \<Rightarrow> (case v of JString s \<Rightarrow> strip s | _ \<Rightarrow> [])
      | None \<Rightarrow>
          (case map_of d ''data'' of
             Some v \<Rightarrow> extract_text fallback_key v
           | None \<Rightarrow>
               (case map_of d ''results'' of
                  Some v \<Rightarrow> extract_text fallback_key v
                | None \<Rightarrow> [])))"
| "extract_text fallback_key (JArray xs) =
     join [newline] (filter (\<lambda>t. t \<noteq> []) (map (extract_text fallback_key) xs))"
| "extract_text fallback_key JNull = []"
| "extract_text fallback_key (JBool b) = []"
| "extract_text fallback_key (JInt n) = []"
| "extract_text fallback_key (JFloat r) = []"
  by pat_completeness auto

termination extract_text
  by (relation "measure (\<lambda>(fallback_key, data). size data)")
     (auto dest: size_map_of simp add: less_Suc_eq_le size_list_estimation')

text \<open>The items one element of a list contributes.\<close>

fun item_texts :: "json \<Rightarrow> string list" where
  "item_texts (JString s) = (if strip s \<noteq> [] then [strip s] else [])"
| "item_texts (JObject d) =
     (let text = extract_text ''text'' (JObject d) in if text \<noteq> [] then [text] else [])"
| "item_texts v = []"

text \<open>\<open>line.strip().lstrip("- ").lstrip("* ")\<close>.\<close>

definition clean_line :: "string \<Rightarrow> string" where
  "clean_line line = lstrip_chars ''* '' (lstrip_chars ''- '' (strip line))"

function extract_list_items :: "json \<Rightarrow> string list" where
  "extract_list_items (JArray xs) = concat (map item_texts xs)"
| "extract_list_items (JObject d) =
     (case first_of is_dict d [''actionItems'', ''keyPoints'', ''key_points'', ''action_items''] of
        Some v \<Rightarrow> extract_list_items v
      | None \<Rightarrow>
          (case first_of is_list d
                  [''content'', ''items'', ''data'', ''results'', ''action_items'', ''actionItems'',
                   ''key_points'', ''keyPoints'', ''points''] of
             Some v \<Rightarrow> extract_list_items v
           | None \<Rightarrow>
               (let text = extract_text ''text'' (JObject d)
                in if text \<noteq> [] then
                     map clean_line (filter (\<lambda>line. strip line \<noteq> []) (split_lines text))
                   else [])))"
| "extract_list_items JNull = []"
| "extract_list_items (JBool b) = []"
| "extract_list_items (JInt n) = []"
| "extract_list_items (JFloat r) = []"
| "extract_list_items (JString s) = []"
  by pat_completeness auto

termination extract_list_items
  by (relation "measure size") (auto dest: size_first_of simp del: first_of.simps)

section \<open>Summary handler\<close>

text \<open>
  \<open>_try_get\<close>: the loop over the path prefixes. \<open>last_resp\<close> is the response of the previous
  pass, which the code returns the status of when no prefix answers 200.
\<close>

fun try_get_loop ::
  "env \<Rightarrow> (string \<times> string) list \<Rightarrow> string \<Rightarrow> string list \<Rightarrow> response option \<Rightarrow> string list
   \<Rightarrow> exn + (int \<times> json \<times> string)" where
  "try_get_loop ev headers sfx attempts last_resp [] =
     (case last_resp of
        Some resp \<Rightarrow> Inr (status_code resp, JNull, join '' | '' attempts)
      | None \<Rightarrow> Inl (OtherException ''UnboundLocalError''
                     (''cannot access local variable '' @ [CHR 0x27] @ ''resp'' @ [CHR 0x27]
                      @ '' where it is not associated with a value'')))"
| "try_get_loop ev headers sfx attempts last_resp (pfx # pfxs) =
     (let url = API_BASE_URL @ ''/'' @ pfx @ ''/'' @ sfx in
      bind (http_get ev url headers []) (\<lambda>resp.
        let attempts' = attempts @ [url @ '' '' @ [right_arrow] @ '' '' @ show_int (status_code resp)]
        in if status_code resp = 200 then
             bind (json_body resp) (\<lambda>data. Inr (200, data, ''OK: '' @ url))
           else try_get_loop ev headers sfx attempts' (Some resp) pfxs))"

definition path_prefixes :: "string \<Rightarrow> string list" where
  "path_prefixes cid = [''activity/'' @ cid, ''conference/'' @ cid]"

definition try_get ::
  "env \<Rightarrow> (string \<times> string) list \<Rightarrow> string \<Rightarrow> string \<Rightarrow> exn + (int \<times> json \<times> string)" where
  "try_get ev headers cid sfx = try_get_loop ev headers sfx [] None (path_prefixes cid)"

definition summary_unavailable :: string where
  "summary_unavailable =
     ''_Summary not available via API. Use jiminny_get_transcript and ask for a summary in chat._''"

definition action_items_unavailable :: string where
  "action_items_unavailable = ''_Action items not available._''"

definition bullet :: "string \<Rightarrow> string" where
  "bullet item = ''- '' @ item"

text \<open>The lines each of the three sections appends after its heading.\<close>

definition summary_section :: "env \<Rightarrow> (string \<times> string) list \<Rightarrow> string \<Rightarrow> string list" where
  "summary_section ev headers cid =
     (case try_get ev headers cid ''transcription-summary'' of
        Inr (status, data, dbg) \<Rightarrow>
          if status = 200 \<and> truthy data then
            (let summary_text = extract_text ''summary'' data
             in [if summary_text \<noteq> [] then summary_text else ''_No summary available._''])
          else [summary_unavailable]
      | Inl e \<Rightarrow> [summary_unavailable])"

definition action_items_section :: "env \<Rightarrow> (string \<times> string) list \<Rightarrow> string \<Rightarrow> string list" where
  "action_items_section ev headers cid =
     (case try_get ev headers cid ''action-items'' of
        Inr (status, data, dbg) \<Rightarrow>
          if status = 200 \<and> truthy data then
            (let action_items = extract_list_items data
             in if action_items \<noteq> [] then map bullet action_items
                else [''_No action items found._''])
          else [action_items_unavailable]
      | Inl e \<Rightarrow> [action_items_unavailable])"

definition key_points_section :: "env \<Rightarrow> (string \<times> string) list \<Rightarrow> string \<Rightarrow> string list" where
  "key_points_section ev headers cid =
     (case try_get ev headers cid ''key-points'' of
        Inr (status, data, dbg) \<Rightarrow>
          if status = 200 \<and> truthy data then
            (let key_points = extract_list_items data
             in if key_points \<noteq> [] then map bullet key_points
                else [''_No key points found._''])
          else [''_Key points not available via API. Use jiminny_get_transcript and ask for key points in chat._'']
      | Inl e \<Rightarrow> [''_Key points not available via API._''])"

definition summary_lines :: "env \<Rightarrow> (string \<times> string) list \<Rightarrow> string \<Rightarrow> string list" where
  "summary_lines ev headers cid =
     [''# Conversation Summary'', '''']
     @ [''## Summary''] @ summary_section ev headers cid @ ['''']
     @ [''## Action Items''] @ action_items_section ev headers cid @ ['''']
     @ [''## Key Points''] @ key_points_section ev headers cid"

text \<open>
  \<open>jiminny_get_summary\<close>. The call of \<open>_auth_headers\<close> stands outside every
  \<open>try\<close> block of the handler.
\<close>

definition jiminny_get_summary :: "env \<Rightarrow> string \<Rightarrow> exn + string" where
  "jiminny_get_summary ev cid =
     bind (auth_headers ev) (\<lambda>headers.
       Inr (truncate (join [newline] (summary_lines ev headers cid))))"

section \<open>Notions used by the statements\<close>

text \<open>The container keys of a dict payload, in the order the transcript handler tries them.\<close>

definition container_keys :: "string list" where
  "container_keys = [''segments'', ''entries'', ''data'', ''results'']"

text \<open>
  Concrete surroundings for the worked examples: built-ins whose two parameters are never
  reached by the examples, and an upstream that answers every request with status 200 and
  one fixed body, with the token set.
\<close>

definition sample_builtins :: builtins where
  "sample_builtins = \<lparr>repr = (\<lambda>v. ''<repr>''), float_of_str = (\<lambda>s. None)\<rparr>"

definition fixed_upstream :: "json \<Rightarrow> env" where
  "fixed_upstream body =
     \<lparr>token_var = Some ''secret'',
      http_get = (\<lambda>url headers params. Inr \<lparr>status_code = 200, json_body = Inr body\<rparr>)\<rparr>"



text \<open>
  An upstream for the transcript handler: the transcription lookup of the conversation
  \<open>cid\<close> answers 200 with \<open>body\<close>; every other request, the participants lookup among
  them, answers 404, so that no participant name is resolved.
\<close>

definition transcript_upstream :: "string \<Rightarrow> json \<Rightarrow> env" where
  "transcript_upstream cid body =
     \<lparr>token_var = Some ''secret'',
      http_get = (\<lambda>url headers params.
        if url = API_BASE_URL @ ''/activity/'' @ cid @ ''/transcription''
          then Inr \<lparr>status_code = 200, json_body = Inr body\<rparr>
        else Inr \<lparr>status_code = 404, json_body = Inr JNull\<rparr>)\<rparr>"





text \<open>The distinct elements of a list in the order of their first occurrence, and the
  position of an element in a list.\<close>

definition first_seen :: "'a list \<Rightarrow> 'a list" where
  "first_seen xs = rev (remdups (rev xs))"



text \<open>The auto-labels "Speaker 1", ..., "Speaker n".\<close>

definition auto_labels :: "nat \<Rightarrow> string list" where
  "auto_labels n = map speaker_label [1..<Suc n]"



section \<open>Auxiliary facts about the loop over the segments\<close>

lemmas loop_eval =
  segment_step_def seg_text_def seg_pid_def seg_start_def py_or_def get_def dict_get_def
  strip_def py_isspace_def resolve_speaker_def bind_def seg_timestamp_def emit_def
  speaker_changed_def header_line_def speaker_label_def show_nat.simps digit_char_def
  dict_set_def Let_def initial_tstate_def





text \<open>A segment that is not a dict, or whose text is blank, leaves the loop variables as
  they are.\<close>

lemma skipped_segment:
  "segment_step bi names st JNull = Inr st"
  "segment_step bi names st (JBool b) = Inr st"
  "segment_step bi names st (JInt n) = Inr st"
  "segment_step bi names st (JFloat r) = Inr st"
  "segment_step bi names st (JString s) = Inr st"
  "segment_step bi names st (JArray xs) = Inr st"
  "seg_text d = JString t \<Longrightarrow> strip t = [] \<Longrightarrow> segment_step bi names st (JObject d) = Inr st"
  by (simp_all add: segment_step_def)

lemma transcript_upstream_lookups:
  "api_get (transcript_upstream cid body) (''activity/'' @ cid @ ''/transcription'') [] = Inr body"
  "get_participant_names (transcript_upstream cid body) cid = []"
  by (simp_all add: api_get_def auth_headers_def get_token_def bind_def raise_for_status_def
                    transcript_upstream_def get_participant_names_def)

section \<open>Exceptions at the boundary of the tool handlers\<close>

text \<open>
  The handlers that list conversations and fetch a transcript return a string whatever
  the token and the upstream do: their whole body stands in a \<open>try\<close> whose handler
  formats the exception.
\<close>

lemma list_conversations_returns:
  "\<exists>text. jiminny_list_conversations bi ev page = Inr text"
  by (simp add: jiminny_list_conversations_def split: sum.split)

lemma get_transcript_returns:
  "\<exists>text. jiminny_get_transcript bi ev cid = Inr text"
  by (simp add: jiminny_get_transcript_def split: sum.split)

text \<open>
  The summary handler lets an exception escape exactly when the token is unset or empty;
  the exception is the configuration error of \<open>_get_token\<close>.
\<close>

lemma get_summary_raises_iff:
  "jiminny_get_summary ev cid = Inl e \<longleftrightarrow>
     (token_var ev = None \<or> token_var ev = Some []) \<and> e = RuntimeError token_message"
  by (auto simp add: jiminny_get_summary_def auth_headers_def get_token_def bind_def
           split: option.splits)

text \<open>
  C1 at the failing input. With \<open>JIMINNY_TOKEN\<close> unset (or set to the empty string),
  \<open>jiminny_get_summary\<close> does not return a string: the \<open>RuntimeError\<close> raised by
  \<open>_auth_headers\<close> reaches the host, for every conversation id and every upstream.
\<close>

theorem get_summary_without_token:
  "jiminny_get_summary \<lparr>token_var = None, http_get = upstream\<rparr> cid
     = Inl (RuntimeError token_message)
   \<and> jiminny_get_summary \<lparr>token_var = Some '''', http_get = upstream\<rparr> cid
     = Inl (RuntimeError token_message)"
  by (simp add: jiminny_get_summary_def auth_headers_def get_token_def bind_def)

section \<open>Truncation\<close>

text \<open>
  C2. A text longer than the budget of 25000 characters is returned as its first 25000
  characters followed by the fixed suffix: the length of the result is the budget plus the
  length of the suffix, and the result ends with the truncation marker. A text of length
  at most the budget is returned unchanged.
\<close>

theorem truncate_spec:
  "(CHARACTER_LIMIT < length text \<longrightarrow>
      length (truncate text) = CHARACTER_LIMIT + length truncation_suffix
      \<and> suffix truncation_marker (truncate text))
   \<and> (length text \<le> CHARACTER_LIMIT \<longrightarrow> truncate text = text)
   \<and> CHARACTER_LIMIT = 25000"
  by (auto simp add: truncate_def truncation_suffix_def suffix_def CHARACTER_LIMIT_def)

theorem truncate_spec_witness:
  "CHARACTER_LIMIT < length (replicate 25001 (CHR ''a''))
   \<and> length (truncate (replicate 25001 (CHR ''a''))) = CHARACTER_LIMIT + length truncation_suffix
   \<and> suffix truncation_marker (truncate (replicate 25001 (CHR ''a'')))
   \<and> length ''abc'' \<le> CHARACTER_LIMIT \<and> truncate ''abc'' = ''abc''"
proof -
  have big: "CHARACTER_LIMIT < length (replicate 25001 (CHR ''a''))"
    unfolding length_replicate CHARACTER_LIMIT_def by simp
  have small: "length ''abc'' \<le> CHARACTER_LIMIT"
    unfolding CHARACTER_LIMIT_def by simp
  from big small truncate_spec [of "replicate 25001 (CHR ''a'')"] truncate_spec [of "''abc''"]
  show ?thesis by blast
qed

section \<open>Independent sections of the summary report\<close>











section \<open>Auto-labels of unresolved speakers\<close>


lemma set_first_seen [simp]: "set (first_seen xs) = set xs"
  by (simp add: first_seen_def)

lemma distinct_first_seen [simp]: "distinct (first_seen xs)"
  by (simp add: first_seen_def)






lemma length_auto_labels [simp]: "length (auto_labels n) = n"
  by (simp add: auto_labels_def)












text \<open>The transcript the handler returns for the ids A, A, B, A with no resolvable names.\<close>

lemma labels_example_output:
  "jiminny_get_transcript sample_builtins
     (transcript_upstream ''c1''
        (JArray [JObject [(''participantId'', JString ''A''), (''text'', JString ''one'')],
                 JObject [(''participantId'', JString ''A''), (''text'', JString ''two'')],
                 JObject [(''participantId'', JString ''B''), (''text'', JString ''three'')],
                 JObject [(''participantId'', JString ''A''), (''text'', JString ''four'')]]))
     ''c1''
   = Inr (''# Transcript'' @ [newline, newline]
          @ ''_Note: 2 speakers detected (names could not be resolved)_'' @ [newline, newline, newline]
          @ ''**Speaker 1** []:'' @ [newline] @ ''one'' @ [newline] @ ''two'' @ [newline, newline]
          @ ''**Speaker 2** []:'' @ [newline] @ ''three'' @ [newline, newline]
          @ ''**Speaker 1** []:'' @ [newline] @ ''four'')"
proof -
  let ?body = "JArray [JObject [(''participantId'', JString ''A''), (''text'', JString ''one'')],
                 JObject [(''participantId'', JString ''A''), (''text'', JString ''two'')],
                 JObject [(''participantId'', JString ''B''), (''text'', JString ''three'')],
                 JObject [(''participantId'', JString ''A''), (''text'', JString ''four'')]]"
  have a: "api_get (transcript_upstream ''c1'' ?body) ''activity/c1/transcription'' [] = Inr ?body"
    using transcript_upstream_lookups(1) [of "''c1''" ?body] by simp
  have n: "get_participant_names (transcript_upstream ''c1'' ?body) ''c1'' = []"
    by (rule transcript_upstream_lookups(2))
  show ?thesis
    by (simp add: jiminny_get_transcript_def transcript_body_def a n
                  select_segments_def render_segments_def participants_line_def insert_at_def
                  truncate_def CHARACTER_LIMIT_def transcript_title_def loop_eval)
qed




section \<open>Blocks of consecutive segments of one speaker\<close>



lemma merged_example_output:
  "jiminny_get_transcript sample_builtins
     (transcript_upstream ''c1''
        (JArray [JObject [(''participantId'', JString ''A''), (''text'', JString ''hi'')],
                 JObject [(''participantId'', JString ''A''), (''text'', JString ''there'')]]))
     ''c1''
   = Inr (''# Transcript'' @ [newline, newline]
          @ ''_Note: 1 speakers detected (names could not be resolved)_'' @ [newline, newline, newline]
          @ ''**Speaker 1** []:'' @ [newline] @ ''hi'' @ [newline] @ ''there'')"
proof -
  let ?body = "JArray [JObject [(''participantId'', JString ''A''), (''text'', JString ''hi'')],
                 JObject [(''participantId'', JString ''A''), (''text'', JString ''there'')]]"
  have a: "api_get (transcript_upstream ''c1'' ?body) ''activity/c1/transcription'' [] = Inr ?body"
    using transcript_upstream_lookups(1) [of "''c1''" ?body] by simp
  have n: "get_participant_names (transcript_upstream ''c1'' ?body) ''c1'' = []"
    by (rule transcript_upstream_lookups(2))
  show ?thesis
    by (simp add: jiminny_get_transcript_def transcript_body_def a n
                  select_segments_def render_segments_def participants_line_def insert_at_def
                  truncate_def CHARACTER_LIMIT_def transcript_title_def loop_eval)
qed




section \<open>Start offset and timestamp of a segment\<close>




lemma py_float_small_int:
  "\<bar>n\<bar> < 2 ^ 53 \<Longrightarrow> py_float bi (JInt n) = Inr (of_int n)"
  by (simp add: float_of_int_def Let_def)

lemma int_of_float_of_int: "int_of_float (of_int n) = n"
  by (simp add: int_of_float_def)





section \<open>Empty conversation list\<close>

text \<open>
  C7. For a response object whose \<open>results\<close> is the empty list (or absent) and whose
  \<open>pagination\<close> is an object (or absent), the list formatter returns the header line
  naming the page and the total, the blank line that separates it, and the line
  "No conversations found."; nothing follows, and the text is not truncated.
\<close>

theorem empty_results_message:
  assumes "dict_get d ''results'' (JArray []) = JArray []"
    and "dict_get d ''pagination'' (JObject []) = JObject pg"
  shows "format_conversation_list bi (JObject d)
           = Inr (list_header bi (dict_get pg ''current'' (JInt 1)) (dict_get pg ''total'' (JInt 0))
                  @ [newline, newline] @ ''No conversations found.'')"
  using assms by (simp add: format_conversation_list_def bind_def)

theorem empty_results_message_witness:
  "dict_get [(''results'', JArray []), (''pagination'', JObject [(''total'', JInt 0), (''current'', JInt 3)])]
      ''results'' (JArray []) = JArray []
   \<and> dict_get [(''results'', JArray []), (''pagination'', JObject [(''total'', JInt 0), (''current'', JInt 3)])]
      ''pagination'' (JObject []) = JObject [(''total'', JInt 0), (''current'', JInt 3)]
   \<and> format_conversation_list sample_builtins
        (JObject [(''results'', JArray []), (''pagination'', JObject [(''total'', JInt 0), (''current'', JInt 3)])])
      = Inr (''# Jiminny Conversations (page 3, 0 total)'' @ [newline, newline] @ ''No conversations found.'')"
proof -
  let ?d = "[(''results'', JArray []), (''pagination'', JObject [(''total'', JInt 0), (''current'', JInt 3)])]"
  let ?pg = "[(''total'', JInt 0), (''current'', JInt 3)]"
  have r: "dict_get ?d ''results'' (JArray []) = JArray []" by (simp add: dict_get_def)
  have p: "dict_get ?d ''pagination'' (JObject []) = JObject ?pg" by (simp add: dict_get_def)
  from empty_results_message [OF r p, of sample_builtins] r p show ?thesis
    by (simp add: list_header_def dict_get_def show_int_def show_nat.simps digit_char_def)
qed

section \<open>Error messages\<close>

lemma contains_sublist: "contains s needle \<longleftrightarrow> sublist needle s"
  by (induction s) (auto simp add: sublist_Cons_right)

text \<open>
  C8, as stated, gives every status other than 401, 404 and 429 the generic message. The
  status 403 has a message of its own.
\<close>

theorem handle_error_403_counterexample:
  "handle_error (HTTPStatusError 403) \<noteq> generic_status_message 403"
  by (simp add: handle_error_def generic_status_message_def)

text \<open>
  C8, amended. The message for status 401 contains "Authentication failed", for 403
  "Permission denied", for 404 "Not found", for 429 "Rate limit"; every other status N
  yields the generic message that names N.
\<close>

theorem handle_error_status:
  "sublist ''Authentication failed'' (handle_error (HTTPStatusError 401))
   \<and> sublist ''Permission denied'' (handle_error (HTTPStatusError 403))
   \<and> sublist ''Not found'' (handle_error (HTTPStatusError 404))
   \<and> sublist ''Rate limit'' (handle_error (HTTPStatusError 429))
   \<and> (\<forall>n. n \<notin> {401, 403, 404, 429} \<longrightarrow>
          handle_error (HTTPStatusError n)
            = ''Error: Jiminny API returned status '' @ show_int n @ ''.'')"
  unfolding contains_sublist [symmetric]
  by (simp add: handle_error_def generic_status_message_def)

theorem handle_error_status_witness:
  "(500::int) \<notin> {401, 403, 404, 429}
   \<and> handle_error (HTTPStatusError 500) = ''Error: Jiminny API returned status 500.''"
proof -
  have out: "(500::int) \<notin> {401, 403, 404, 429}" by simp
  from handle_error_status have
    "(500::int) \<notin> {401, 403, 404, 429} \<longrightarrow>
       handle_error (HTTPStatusError 500)
         = ''Error: Jiminny API returned status '' @ show_int 500 @ ''.''"
    by blast
  with out show ?thesis by (simp add: show_int_def show_nat.simps digit_char_def)
qed

section \<open>Extractors\<close>

text \<open>
  C9. On \<open>{"actionItems": {"content": ["x", "y"]}}\<close> the list extractor returns
  \<open>["x", "y"]\<close>; on \<open>{"summary": "  done  "}\<close> the text extractor, with its default
  fallback key, returns \<open>"done"\<close>.
\<close>

theorem extractors_reference_cases:
  "extract_list_items
     (JObject [(''actionItems'', JObject [(''content'', JArray [JString ''x'', JString ''y''])])])
     = [''x'', ''y'']
   \<and> extract_text ''text'' (JObject [(''summary'', JString ''  done  '')]) = ''done''"
  by (simp add: strip_def py_isspace_def)

section \<open>Container keys of the transcript payload\<close>

lemma api_get_fixed_upstream: "api_get (fixed_upstream body) path params = Inr body"
  by (simp add: api_get_def auth_headers_def get_token_def bind_def raise_for_status_def
                fixed_upstream_def)

text \<open>
  C10. For a dict payload, the segment sequence is the value of the first container key
  (\<open>segments\<close>, \<open>entries\<close>, \<open>data\<close>, \<open>results\<close>) whose value is true: when every key
  of higher priority is absent or maps to a false value (an empty list, for one) and a key
  maps to a non-empty list, that list is selected and the handler renders its segments.
\<close>

theorem first_truthy_container:
  assumes "i < length container_keys"
    and "get d (container_keys ! i) = JArray segs" and "segs \<noteq> []"
    and "\<forall>k \<in> set (take i container_keys). \<not> truthy (get d k)"
    and "api_get ev (''activity/'' @ cid @ ''/transcription'') [] = Inr (JObject d)"
  shows "select_segments (JObject d) = JArray segs
         \<and> transcript_body bi ev cid = render_segments bi (get_participant_names ev cid) segs"
proof -
  from assms(1) have "i = 0 \<or> i = 1 \<or> i = 2 \<or> i = 3"
    by (auto simp add: container_keys_def)
  with assms(2-4) have sel: "select_segments (JObject d) = JArray segs"
    by (auto simp add: select_segments_def py_or_def container_keys_def
                       numeral_2_eq_2 numeral_3_eq_3)
  with assms(3,5) show ?thesis
    by (simp add: transcript_body_def bind_def)
qed

theorem first_truthy_container_witness:
  "1 < length container_keys
   \<and> get [(''segments'', JArray []), (''entries'', JArray [JObject [(''text'', JString ''hi'')]])]
         (container_keys ! 1) = JArray [JObject [(''text'', JString ''hi'')]]
   \<and> take 1 container_keys = [''segments'']
   \<and> get [(''segments'', JArray []), (''entries'', JArray [JObject [(''text'', JString ''hi'')]])]
         ''segments'' = JArray []
   \<and> select_segments (JObject [(''segments'', JArray []), (''entries'', JArray [JObject [(''text'', JString ''hi'')]])])
       = JArray [JObject [(''text'', JString ''hi'')]]
   \<and> transcript_body sample_builtins
        (fixed_upstream (JObject [(''segments'', JArray []), (''entries'', JArray [JObject [(''text'', JString ''hi'')]])]))
        ''c1''
       = render_segments sample_builtins [] [JObject [(''text'', JString ''hi'')]]"
proof -
  let ?segs = "[JObject [(''text'', JString ''hi'')]]"
  let ?d = "[(''segments'', JArray []), (''entries'', JArray ?segs)]"
  have h1: "1 < length container_keys" by (simp add: container_keys_def)
  have h2: "get ?d (container_keys ! 1) = JArray ?segs"
    by (simp add: container_keys_def get_def dict_get_def)
  have h3: "?segs \<noteq> []" by simp
  have h4: "\<forall>k \<in> set (take 1 container_keys). \<not> truthy (get ?d k)"
    by (simp add: container_keys_def get_def dict_get_def)
  have h5: "api_get (fixed_upstream (JObject ?d)) (''activity/'' @ ''c1'' @ ''/transcription'') [] = Inr (JObject ?d)"
    by (rule api_get_fixed_upstream)
  have names: "get_participant_names (fixed_upstream (JObject ?d)) ''c1'' = []"
    by (simp add: get_participant_names_def api_get_fixed_upstream bind_def participants_of_def
                  dict_get_def)
  have h6: "take 1 container_keys = [''segments'']" by (simp add: container_keys_def)
  have h7: "get ?d ''segments'' = JArray []" by (simp add: get_def dict_get_def)
  from first_truthy_container [OF h1 h2 h3 h4 h5, of sample_builtins] h1 h2 h6 h7 names
  show ?thesis by simp
qed

end
